theory Spec2Isabelle
  imports Complex_Main "HOL-Library.List_Lexorder" "HOL-Library.Char_ord" "HOL-Library.Multiset"
    "HOL-Library.Product_Lexorder"
begin

section \<open>Values, errors and tables\<close>

text \<open>
  A floating-point value of a pandas column is a real number or NaN; \<open>None\<close> is NaN.
  Arithmetic with NaN gives NaN and every comparison with NaN is false.
\<close>

type_synonym val = "real option"

definition vsub :: "val \<Rightarrow> val \<Rightarrow> val" where
  "vsub a b = (case (a, b) of (Some x, Some y) \<Rightarrow> Some (x - y) | _ \<Rightarrow> None)"

definition vadd :: "val \<Rightarrow> val \<Rightarrow> val" where
  "vadd a b = (case (a, b) of (Some x, Some y) \<Rightarrow> Some (x + y) | _ \<Rightarrow> None)"

definition vmul :: "val \<Rightarrow> val \<Rightarrow> val" where
  "vmul a b = (case (a, b) of (Some x, Some y) \<Rightarrow> Some (x * y) | _ \<Rightarrow> None)"

definition vdiv :: "val \<Rightarrow> val \<Rightarrow> val" where
  "vdiv a b = (case (a, b) of (Some x, Some y) \<Rightarrow> Some (x / y) | _ \<Rightarrow> None)"

definition vexp :: "val \<Rightarrow> val" where
  "vexp a = map_option exp a"

definition vpos :: "val \<Rightarrow> bool" where
  "vpos a = (case a of Some x \<Rightarrow> 0 < x | None \<Rightarrow> False)"

text \<open>A cell of a table with columns of mixed kinds.\<close>

datatype cell = NaN | Num real | Flag bool | Txt string

text \<open>The exceptions the modelled functions raise, each with its message or key.\<close>

datatype error =
    KeyError string
  | ValueError string
  | IndexError string
  | AssertionError string
  | MergeError string

text \<open>
  A DataFrame with a default (positional) index: the column names, and the rows as
  functions from a column name to the cell. A row is read at the names in \<open>cols\<close> only.
\<close>

record frame =
  cols :: "string list"
  rows :: "(string \<Rightarrow> cell) list"

section \<open>Peak detection: \<open>processing.find_pks\<close>\<close>

text \<open>
  \<open>data.groupby("signal")\<close>: the group keys are the distinct labels of the column, in
  ascending order; rows whose label is NaN are in no group. The labels of this column are
  texts. The groups are cut from the table as it is when the iteration starts.
\<close>

definition group_keys :: "frame \<Rightarrow> string list" where
  "group_keys data =
     sort (remdups (concat (map (\<lambda>r. case r ''signal'' of Txt s \<Rightarrow> [s] | _ \<Rightarrow> []) (rows data))))"

definition group_index :: "frame \<Rightarrow> string \<Rightarrow> nat list" where
  "group_index data sig =
     filter (\<lambda>i. (rows data ! i) ''signal'' = Txt sig) [0..<length (rows data)]"

definition take_rows :: "frame \<Rightarrow> nat list \<Rightarrow> frame" where
  "take_rows data idx = \<lparr>cols = cols data, rows = map (\<lambda>i. rows data ! i) idx\<rparr>"

text \<open>\<open>df[c]\<close>: the cells of a column, KeyError when the table has no such column.\<close>

definition get_col :: "frame \<Rightarrow> string \<Rightarrow> error + cell list" where
  "get_col df c =
     (if c \<in> set (cols df) then Inr (map (\<lambda>r. r c) (rows df)) else Inl (KeyError c))"

text \<open>
  \<open>df.loc[idx, c] = vs\<close>: the cells of column \<open>c\<close> at the rows \<open>idx\<close> become \<open>vs\<close>; a
  column that does not exist yet is appended, NaN at every other row.
\<close>

definition loc_set :: "frame \<Rightarrow> nat list \<Rightarrow> string \<Rightarrow> cell list \<Rightarrow> frame" where
  "loc_set df idx c vs =
     \<lparr>cols = (if c \<in> set (cols df) then cols df else cols df @ [c]),
      rows = map (\<lambda>i. let r = (if c \<in> set (cols df) then rows df ! i else (rows df ! i)(c := NaN))
                       in (case map_of (zip idx vs) i of Some v \<Rightarrow> r(c := v) | None \<Rightarrow> r))
                 [0..<length (rows df)]\<rparr>"

text \<open>
  \<open>np.zeros_like(dat, dtype=bool); pvec[pks] = 1\<close>, for the in-range positions that
  \<open>scipy.signal.find_peaks\<close> returns.
\<close>

definition peak_vector :: "nat \<Rightarrow> nat list \<Rightarrow> cell list" where
  "peak_vector n pks = map (\<lambda>i. Flag (i \<in> set pks)) [0..<n]"

text \<open>
  \<open>Series.rolling(w).sum()\<close>: NaN until \<open>w\<close> cells are there, then the sum of the last
  \<open>w\<close> cells (a flag counts 1 when set); a window holding a NaN gives NaN.
\<close>

definition cell_num :: "cell \<Rightarrow> val" where
  "cell_num c = (case c of Num x \<Rightarrow> Some x | Flag b \<Rightarrow> Some (if b then 1 else 0) | _ \<Rightarrow> None)"

definition rolling_sum :: "nat \<Rightarrow> cell list \<Rightarrow> cell list" where
  "rolling_sum w cs =
     map (\<lambda>i. if i + 1 < w then NaN
               else (case foldr vadd (map cell_num (take w (drop (i + 1 - w) cs))) (Some 0) of
                       Some s \<Rightarrow> Num s | None \<Rightarrow> NaN))
         [0..<length cs]"

text \<open>
  The loop over \<open>rois\<close> for one selected group (lines 118 to 127). The state is the
  table \<open>data\<close> and the group's own table \<open>dat_sig\<close>. The peak column is written to
  \<open>data\<close>; the rolling count reads the peak column of \<open>dat_sig\<close> and is written to
  \<open>dat_sig\<close>. \<open>find_peaks\<close> is the library's peak search, a parameter.
\<close>

fun find_pks_rois ::
  "(cell list \<Rightarrow> 'p \<Rightarrow> nat list) \<Rightarrow> 'p \<Rightarrow> nat option \<Rightarrow> nat list \<Rightarrow> string list
     \<Rightarrow> frame \<times> frame \<Rightarrow> error + frame \<times> frame" where
  "find_pks_rois find_peaks prominence freq_wd idx [] st = Inr st"
| "find_pks_rois find_peaks prominence freq_wd idx (roi # rois) (data, dat_sig) =
     (case get_col dat_sig roi of
        Inl e \<Rightarrow> Inl e
      | Inr dat \<Rightarrow>
          (let pks = find_peaks dat prominence;
               pvec = peak_vector (length dat) pks;
               data' = loc_set data idx (roi @ ''-pks'') pvec
           in (case freq_wd of
                 None \<Rightarrow> find_pks_rois find_peaks prominence freq_wd idx rois (data', dat_sig)
               | Some w \<Rightarrow>
                   (case get_col dat_sig (roi @ ''-pks'') of
                      Inl e \<Rightarrow> Inl e
                    | Inr pk \<Rightarrow>
                        find_pks_rois find_peaks prominence freq_wd idx rois
                          (data', loc_set dat_sig [0..<length idx] (roi @ ''-freq'')
                                    (rolling_sum w pk))))))"

text \<open>
  The loop over the groups (lines 116 and 117). A group is processed when a channel
  filter is given and holds the group's label; its own table is dropped afterwards.
\<close>

fun find_pks_groups ::
  "(cell list \<Rightarrow> 'p \<Rightarrow> nat list) \<Rightarrow> 'p \<Rightarrow> nat option \<Rightarrow> string list option \<Rightarrow> string list
     \<Rightarrow> frame \<Rightarrow> string list \<Rightarrow> frame \<Rightarrow> error + frame" where
  "find_pks_groups find_peaks prominence freq_wd sigs rois snap [] data = Inr data"
| "find_pks_groups find_peaks prominence freq_wd sigs rois snap (sig # keys) data =
     (if (case sigs of None \<Rightarrow> False | Some ss \<Rightarrow> sig \<in> set ss) then
        (case find_pks_rois find_peaks prominence freq_wd (group_index snap sig) rois
                (data, take_rows snap (group_index snap sig)) of
           Inl e \<Rightarrow> Inl e
         | Inr (data', dat_sig') \<Rightarrow>
             find_pks_groups find_peaks prominence freq_wd sigs rois snap keys data')
      else find_pks_groups find_peaks prominence freq_wd sigs rois snap keys data)"

definition find_pks ::
  "(cell list \<Rightarrow> 'p \<Rightarrow> nat list) \<Rightarrow> frame \<Rightarrow> string list \<Rightarrow> 'p \<Rightarrow> nat option
     \<Rightarrow> string list option \<Rightarrow> error + frame" where
  "find_pks find_peaks data rois prominence freq_wd sigs =
     (if ''signal'' \<notin> set (cols data) then Inl (KeyError ''signal'')
      else find_pks_groups find_peaks prominence freq_wd sigs rois data (group_keys data) data)"

text \<open>An example table: one channel group \<open>470nm\<close> of three rows, one region \<open>G\<close>.\<close>

definition example_row :: "string \<Rightarrow> real \<Rightarrow> string \<Rightarrow> cell" where
  "example_row sig x c = (if c = ''signal'' then Txt sig else if c = ''G'' then Num x else NaN)"

definition example_signals :: frame where
  "example_signals = \<lparr>cols = [''signal'', ''G''],
     rows = [example_row ''470nm'' 1, example_row ''470nm'' 3, example_row ''470nm'' 2]\<rparr>"

section \<open>Event pooling: \<open>utilities.pool_events\<close>\<close>

text \<open>\<open>str\<close> of an integer frame counter: decimal digits, a minus sign when negative.\<close>

definition digit_char :: "nat \<Rightarrow> char" where
  "digit_char d = char_of (48 + d)"

function str_nat :: "nat \<Rightarrow> string" where
  "str_nat n = (if n < 10 then [digit_char n] else str_nat (n div 10) @ [digit_char (n mod 10)])"
  by pat_completeness auto
termination
  by (relation "measure id") auto

declare str_nat.simps [simp del]

definition str_int :: "int \<Rightarrow> string" where
  "str_int i = (if i < 0 then CHR ''-'' # str_nat (nat (- i)) else str_nat (nat i))"

text \<open>
  \<open>Series.mean()\<close> and \<open>Series.std()\<close> skip NaN. The mean of no value is NaN; the
  standard deviation is the sample one (divisor \<open>n - 1\<close>), NaN below two values.
\<close>

definition present :: "val list \<Rightarrow> real list" where
  "present vs = concat (map (\<lambda>v. case v of Some x \<Rightarrow> [x] | None \<Rightarrow> []) vs)"

definition vmean :: "val list \<Rightarrow> val" where
  "vmean vs = (let xs = present vs in
                if xs = [] then None else Some (sum_list xs / real (length xs)))"

definition vvar :: "val list \<Rightarrow> val" where
  "vvar vs = (let xs = present vs; m = sum_list xs / real (length xs) in
               if length xs < 2 then None
               else Some (sum_list (map (\<lambda>x. (x - m)\<^sup>2) xs) / real (length xs - 1)))"

definition vstd :: "val list \<Rightarrow> val" where
  "vstd vs = map_option sqrt (vvar vs)"

text \<open>
  The aligned master table: the names of its columns, and its rows. A row holds the
  frame counter \<open>fm_fp\<close>, the event label (\<open>None\<close> is a null cell) and the values of
  the other columns, the regions among them. The frame counter holds integers, the event
  column texts, so \<open>astype(str)\<close> on line 73 leaves the labels as they are; the
  regions are value columns, other than \<open>fm_fp\<close> and \<open>event\<close>.
\<close>

record mrow =
  fm_fp :: int
  event :: "string option"
  vals :: "string \<Rightarrow> val"


text \<open>A row of an event window: the master row with \<open>fm_evt\<close> and \<open>evt_id\<close>.\<close>

record wrow = mrow +
  fm_evt :: int
  evt_id :: string





text \<open>
  Lines 88 to 93, for one region: mean and standard deviation over the rows before the
  event; the whole window is scaled when the standard deviation is positive and set to
  zero otherwise (the comparison is false for NaN).
\<close>

definition pre_event :: "string \<Rightarrow> wrow list \<Rightarrow> val list" where
  "pre_event roi dat_sub = map (\<lambda>r. vals r roi) (filter (\<lambda>r. fm_evt r < 0) dat_sub)"

definition norm_roi :: "string \<Rightarrow> wrow list \<Rightarrow> wrow list" where
  "norm_roi roi dat_sub =
     (let mean = vmean (pre_event roi dat_sub);
          std = vstd (pre_event roi dat_sub)
      in if vpos std
         then map (\<lambda>r. r\<lparr>vals := (vals r)(roi := vdiv (vsub (vals r roi) mean) std)\<rparr>) dat_sub
         else map (\<lambda>r. r\<lparr>vals := (vals r)(roi := Some 0)\<rparr>) dat_sub)"







section \<open>Loading: \<open>utilities.load_data\<close>\<close>

text \<open>
  A row of the raw recording: frame counter, device timestamp, light-source code and the
  region columns with their values. The device timestamp of every frame is a number.
\<close>

record sample =
  FrameCounter :: int
  SystemTimestamp :: real
  LedState :: int
  regions :: "(string \<times> val) list"

text \<open>The row with its \<open>signal\<close> column; \<open>None\<close> is NaN.\<close>

record labelled = sample +
  signal :: "string option"

text \<open>
  \<open>cut_df\<close>: \<open>df.sort_values("SystemTimestamp").iloc[:nrow]\<close>. The sort is pandas'
  (its default algorithm is not stable), a parameter.
\<close>

definition cut_df :: "(labelled list \<Rightarrow> labelled list) \<Rightarrow> labelled list \<Rightarrow> nat \<Rightarrow> labelled list" where
  "cut_df sort_values df nrow = take nrow (sort_values df)"

text \<open>
  Lines 21 and 22: the rows whose frame counter is above the discard count, each with the
  label that \<open>led_dict\<close> gives its light-source code, NaN when the code has no label.
\<close>

definition add_signal :: "(int \<rightharpoonup> string) \<Rightarrow> sample \<Rightarrow> labelled" where
  "add_signal led_dict r =
     \<lparr>FrameCounter = FrameCounter r, SystemTimestamp = SystemTimestamp r, LedState = LedState r,
      regions = regions r, signal = led_dict (LedState r)\<rparr>"

definition label_rows :: "sample list \<Rightarrow> int \<Rightarrow> (int \<rightharpoonup> string) \<Rightarrow> labelled list" where
  "label_rows data_file discard_nfm led_dict =
     map (add_signal led_dict) (filter (\<lambda>r. discard_nfm < FrameCounter r) data_file)"

text \<open>
  \<open>groupby("signal")\<close>: the keys are the distinct labels in ascending order, rows
  with a NaN label are in no group, and a group keeps the table's row order.
\<close>

definition signal_keys :: "labelled list \<Rightarrow> string list" where
  "signal_keys data = sort (remdups (concat (map (\<lambda>r. case signal r of Some s \<Rightarrow> [s] | None \<Rightarrow> []) data)))"

definition signal_group :: "labelled list \<Rightarrow> string \<Rightarrow> labelled list" where
  "signal_group data k = filter (\<lambda>r. signal r = Some k) data"

text \<open>Line 23: \<open>data.groupby("signal").size().min()\<close>.\<close>

definition min_group_size :: "labelled list \<Rightarrow> nat" where
  "min_group_size data = Min (set (map (\<lambda>k. length (signal_group data k)) (signal_keys data)))"

text \<open>
  \<open>rename(columns=roi_dict)\<close> on the region columns; the keys of \<open>roi_dict\<close> are
  region names.
\<close>

definition rename_columns :: "(string \<rightharpoonup> string) \<Rightarrow> labelled \<Rightarrow> labelled" where
  "rename_columns roi_dict r =
     r\<lparr>regions := map (\<lambda>(c, v). (case roi_dict c of Some n \<Rightarrow> n | None \<Rightarrow> c, v)) (regions r)\<rparr>"

text \<open>
  \<open>load_data\<close> on a table (lines 21 to 30): every group cut to the smallest group
  size, the groups one after the other in key order, then the columns renamed. Without
  any group no row is returned.
\<close>

definition load_data ::
  "(labelled list \<Rightarrow> labelled list) \<Rightarrow> sample list \<Rightarrow> int \<Rightarrow> (int \<rightharpoonup> string) \<Rightarrow> (string \<rightharpoonup> string)
     \<Rightarrow> labelled list" where
  "load_data sort_values data_file discard_nfm led_dict roi_dict =
     (let data = label_rows data_file discard_nfm led_dict;
          nfm = min_group_size data
      in map (rename_columns roi_dict)
           (concat (map (\<lambda>k. cut_df sort_values (signal_group data k) nfm) (signal_keys data))))"

text \<open>
  An example recording: frame 1 to be discarded, three frames of code 1, two of code 2
  and one frame of a code without label; the light-source mapping that the
  constructor of \<open>NPMProcess\<close> sets.
\<close>

definition example_samples :: "sample list" where
  "example_samples =
     [\<lparr>FrameCounter = 1, SystemTimestamp = 0.1, LedState = 7, regions = [(''G0'', Some 5)]\<rparr>,
      \<lparr>FrameCounter = 2, SystemTimestamp = 0.2, LedState = 1, regions = [(''G0'', Some 4)]\<rparr>,
      \<lparr>FrameCounter = 3, SystemTimestamp = 0.3, LedState = 2, regions = [(''G0'', Some 6)]\<rparr>,
      \<lparr>FrameCounter = 4, SystemTimestamp = 0.4, LedState = 1, regions = [(''G0'', Some 4)]\<rparr>,
      \<lparr>FrameCounter = 5, SystemTimestamp = 0.5, LedState = 2, regions = [(''G0'', Some 7)]\<rparr>,
      \<lparr>FrameCounter = 6, SystemTimestamp = 0.6, LedState = 1, regions = [(''G0'', Some 3)]\<rparr>,
      \<lparr>FrameCounter = 7, SystemTimestamp = 0.7, LedState = 9, regions = [(''G0'', Some 2)]\<rparr>]"

definition default_led_dict :: "int \<rightharpoonup> string" where
  "default_led_dict = [7 \<mapsto> ''initial'', 1 \<mapsto> ''415nm'', 2 \<mapsto> ''470nm'', 4 \<mapsto> ''560nm'']"

definition example_roi_dict :: "string \<rightharpoonup> string" where
  "example_roi_dict = [''G0'' \<mapsto> ''Green0'']"

section \<open>Biexponential fit: \<open>processing.fit_exp2\<close> and \<open>utilities.exp2\<close>\<close>

text \<open>The five parameters of the curve.\<close>

type_synonym params = "val \<times> val \<times> val \<times> val \<times> val"

text \<open>\<open>exp2(x, a, b, c, d, e)\<close> at one point of \<open>x\<close>.\<close>

definition exp2 :: "val \<Rightarrow> val \<Rightarrow> val \<Rightarrow> val \<Rightarrow> val \<Rightarrow> val \<Rightarrow> val" where
  "exp2 x a b c d e = vadd (vadd (vmul a (vexp (vmul b x))) (vmul c (vexp (vmul d x)))) e"

text \<open>\<open>Series.median()\<close>: the median of the values that are not NaN, NaN when there is none.\<close>

definition median :: "val list \<Rightarrow> val" where
  "median vs =
     (let xs = sort (present vs); n = length xs in
      if n = 0 then None
      else if odd n then Some (xs ! (n div 2))
      else Some ((xs ! (n div 2 - 1) + xs ! (n div 2)) / 2))"

text \<open>
  \<open>fit_exp2\<close>. \<open>curve_fit\<close> is the library's fit, a parameter: it gives the fitted
  parameters, or \<open>None\<close> when it raises (the bare \<open>except\<close> catches everything). The
  result is the list of warnings emitted and the returned trace.
\<close>

definition fit_exp2 ::
  "((val \<Rightarrow> val \<Rightarrow> val \<Rightarrow> val \<Rightarrow> val \<Rightarrow> val \<Rightarrow> val) \<Rightarrow> val list \<Rightarrow> val list \<Rightarrow> params \<Rightarrow> params option)
     \<Rightarrow> val list \<Rightarrow> val list \<Rightarrow> string list \<times> val list" where
  "fit_exp2 curve_fit a x =
     (let dmax = median (take 50 a);
          dmin = median (drop (length a - 50) a);
          drg = vsub dmax dmin;
          p0 = (drg, Some (- 10), drg, Some (1 / 10), vsub dmin drg);
          (warnings, popt) = (case curve_fit exp2 x a p0 of
                                Some popt \<Rightarrow> ([], popt)
                              | None \<Rightarrow> ([''Biexponential fit failed''], p0))
      in (warnings, (case popt of (pa, pb, pc, pd, pe) \<Rightarrow> map (\<lambda>t. exp2 t pa pb pc pd pe) x)))"

text \<open>
  The specification's words: the initial guess from the medians of the first and of the
  last 50 samples, and the curve \<open>f(x) = a e^(bx) + c e^(dx) + e\<close>.
\<close>

definition spec_initial_guess :: "val list \<Rightarrow> params" where
  "spec_initial_guess a =
     (let d_max = median (take 50 a);
          d_min = median (rev (take 50 (rev a)));
          r = vsub d_max d_min
      in (r, Some (- 10), r, Some (1 / 10), vsub d_min r))"

definition spec_biexp :: "params \<Rightarrow> val \<Rightarrow> val" where
  "spec_biexp p x =
     (case p of (a, b, c, d, e) \<Rightarrow> vadd (vadd (vmul a (vexp (vmul b x))) (vmul c (vexp (vmul d x)))) e)"

section \<open>The processing object: \<open>oo_interface.NPMProcess\<close>\<close>











section \<open>Timestamp sources: \<open>utilities.load_ts\<close>\<close>

text \<open>
  A timestamp source is a table read without header: its columns by position, each with
  its dtype and its cells.
\<close>

datatype dtype = Object_dtype | Float_dtype | Integer_dtype | Bool_dtype | Other_dtype

type_synonym column = "dtype \<times> cell list"

text \<open>The dtype tests of \<open>pandas.api.types\<close>.\<close>

definition is_object_dtype :: "column \<Rightarrow> bool" where
  "is_object_dtype c = (fst c = Object_dtype)"

definition is_float_dtype :: "column \<Rightarrow> bool" where
  "is_float_dtype c = (fst c = Float_dtype)"

definition is_integer_dtype :: "column \<Rightarrow> bool" where
  "is_integer_dtype c = (fst c = Integer_dtype)"

definition is_bool_dtype :: "column \<Rightarrow> bool" where
  "is_bool_dtype c = (fst c = Bool_dtype)"

text \<open>
  \<open>df_to_numeric\<close>: every column through \<open>pd.to_numeric(errors="ignore")\<close>, the
  library's coercion, a parameter.
\<close>

definition df_to_numeric :: "(column \<Rightarrow> column) \<Rightarrow> column list \<Rightarrow> column list" where
  "df_to_numeric to_numeric df = map to_numeric df"

text \<open>The number of rows, and the table with named columns made of given cells.\<close>

definition nrows :: "column list \<Rightarrow> nat" where
  "nrows df = (case df of [] \<Rightarrow> 0 | c # _ \<Rightarrow> length (snd c))"

definition make_frame :: "string list \<Rightarrow> cell list list \<Rightarrow> nat \<Rightarrow> frame" where
  "make_frame names columns n =
     \<lparr>cols = names,
      rows = map (\<lambda>i c. case map_of (zip names (map (\<lambda>col. col ! i) columns)) c of
                           Some v \<Rightarrow> v | None \<Rightarrow> NaN) [0..<n]\<rparr>"

text \<open>
  \<open>load_ts\<close>: the table with its columns named, and the type of the source.
  \<open>ts.iloc[0, 0]\<close> raises IndexError on a table without rows. \<open>astype(str)\<close> is the
  library's text of a cell, a parameter.
\<close>

definition load_ts ::
  "(column \<Rightarrow> column) \<Rightarrow> (cell \<Rightarrow> string) \<Rightarrow> column list \<Rightarrow> error + frame \<times> string" where
  "load_ts to_numeric astype_str ts0 =
     (let ts = df_to_numeric to_numeric ts0; n = nrows ts in
      if length ts = 2 then
        if is_object_dtype (ts ! 0) \<and> is_float_dtype (ts ! 1) then
          Inr (make_frame [''event'', ''ts'', ''event_type'']
                 [snd (ts ! 0), snd (ts ! 1), replicate n (Txt ''keydown'')] n, ''ts_keydown'')
        else if is_integer_dtype (ts ! 0) \<and> is_float_dtype (ts ! 1) then
          Inr (make_frame [''fm_behav'', ''ts''] [snd (ts ! 0), snd (ts ! 1)] n, ''ts_behav'')
        else if is_integer_dtype (ts ! 0) \<and> (is_object_dtype (ts ! 1) \<or> is_bool_dtype (ts ! 1)) then
          Inr (make_frame [''fm_behav'', ''event'', ''event_type'']
                 [snd (ts ! 0), snd (ts ! 1), replicate n (Txt ''user'')] n, ''ts_events'')
        else Inl (ValueError ''Don't know how to handle TS'')
      else if length ts = 5 then
        if n = 0 then Inl (IndexError ''single positional indexer is out-of-bounds'')
        else
          (let ts1 = (if snd (ts ! 0) ! 0 = Txt ''DigitalIOName''
                      then map (\<lambda>c. (fst c, tl (snd c))) ts else ts);
               ts2 = df_to_numeric to_numeric ts1;
               m = nrows ts2;
               event = map (\<lambda>i. Txt (astype_str (snd (ts2 ! 0) ! i) @ ''-'' @
                                       astype_str (snd (ts2 ! 1) ! i) @ ''-'' @
                                       astype_str (snd (ts2 ! 2) ! i))) [0..<m]
           in Inr (make_frame
                     [''io_name'', ''io_flag'', ''io_state'', ''ts_fp'', ''ts'', ''event'', ''event_type'']
                     [snd (ts2 ! 0), snd (ts2 ! 1), snd (ts2 ! 2), snd (ts2 ! 3), snd (ts2 ! 4),
                      event, replicate m (Txt ''arduino'')] m, ''ts_arduino''))
      else Inl (ValueError ''Don't know how to handle TS''))"




section \<open>Alignment: \<open>ts_alignment.align_ts\<close>\<close>

text \<open>
  \<open>df.rename(columns=m)\<close> and \<open>df[[c1, c2, ...]]\<close> (KeyError for a name that is
  no column).
\<close>

definition rename_cols :: "(string \<rightharpoonup> string) \<Rightarrow> frame \<Rightarrow> frame" where
  "rename_cols m df =
     (let new = (\<lambda>c. case m c of Some n \<Rightarrow> n | None \<Rightarrow> c) in
      \<lparr>cols = map new (cols df),
       rows = map (\<lambda>r c. case find (\<lambda>c0. new c0 = c) (cols df) of
                            Some c0 \<Rightarrow> r c0 | None \<Rightarrow> NaN) (rows df)\<rparr>)"

definition select_cols :: "frame \<Rightarrow> string list \<Rightarrow> error + frame" where
  "select_cols df cs =
     (case filter (\<lambda>c. c \<notin> set (cols df)) cs of
        [] \<Rightarrow> Inr \<lparr>cols = cs, rows = rows df\<rparr>
      | c # _ \<Rightarrow> Inl (KeyError c))"

text \<open>
  A Python dict with text keys, in insertion order: \<open>d[k] = v\<close> and \<open>d.pop(k)\<close>.
\<close>

definition dict_set :: "(string \<times> 'a) list \<Rightarrow> string \<Rightarrow> 'a \<Rightarrow> (string \<times> 'a) list" where
  "dict_set d k v =
     (if k \<in> fst ` set d then map (\<lambda>(k', v'). if k' = k then (k, v) else (k', v')) d
      else d @ [(k, v)])"

definition dict_pop :: "(string \<times> 'a) list \<Rightarrow> string \<Rightarrow> (string \<times> 'a) list" where
  "dict_pop d k = filter (\<lambda>(k', v'). k' \<noteq> k) d"

text \<open>
  Lines 19 to 30: every source is loaded; a behaviour-timestamp or frame-timestamp
  source is stored under its type, after the check that the type is no key yet; any
  other source is stored under its own name, in the same dict.
\<close>

fun load_sources ::
  "(column \<Rightarrow> column) \<Rightarrow> (cell \<Rightarrow> string) \<Rightarrow> (string \<times> column list) list
     \<Rightarrow> (string \<times> frame) list \<Rightarrow> error + (string \<times> frame) list" where
  "load_sources to_numeric astype_str [] ts_dict = Inr ts_dict"
| "load_sources to_numeric astype_str ((dname, dat0) # ts_files) ts_dict =
     (case load_ts to_numeric astype_str dat0 of
        Inl e \<Rightarrow> Inl e
      | Inr (dat, ts_type) \<Rightarrow>
          if ts_type = ''ts_behav'' \<or> ts_type = ''ts_fp'' then
            if ts_type \<in> fst ` set ts_dict
            then Inl (ValueError (''Multiple '' @ ts_type @ '' supplied but only one expected.''))
            else load_sources to_numeric astype_str ts_files (dict_set ts_dict ts_type dat)
          else load_sources to_numeric astype_str ts_files (dict_set ts_dict dname dat))"

text \<open>
  \<open>DataFrame.merge(on=key)\<close>: the names of the merged table (a name that both
  tables have, the key apart, gets the suffix \<open>_x\<close> or \<open>_y\<close>), the merged row of a
  left and a right row (NaN for a missing side), the rows of a left join and the
  right rows without partner that an outer join adds. Equal keys match, NaN with NaN.
\<close>

definition merged_names :: "string \<Rightarrow> string list \<Rightarrow> string list \<Rightarrow> string list" where
  "merged_names key lcols rcols =
     map (\<lambda>c. if c \<noteq> key \<and> c \<in> set rcols then c @ ''_x'' else c) lcols @
     map (\<lambda>c. if c \<in> set lcols then c @ ''_y'' else c) (filter (\<lambda>c. c \<noteq> key) rcols)"

definition join_row ::
  "string \<Rightarrow> string list \<Rightarrow> string list \<Rightarrow> (string \<Rightarrow> cell) option \<Rightarrow> (string \<Rightarrow> cell) option
     \<Rightarrow> string \<Rightarrow> cell" where
  "join_row key lcols rcols l r =
     (let lvals = map (\<lambda>c. case l of Some lr \<Rightarrow> lr c
                            | None \<Rightarrow> (if c = key then (case r of Some rr \<Rightarrow> rr key | None \<Rightarrow> NaN)
                                       else NaN)) lcols;
          rvals = map (\<lambda>c. case r of Some rr \<Rightarrow> rr c | None \<Rightarrow> NaN)
                      (filter (\<lambda>c. c \<noteq> key) rcols)
      in (\<lambda>c. case map_of (zip (merged_names key lcols rcols) (lvals @ rvals)) c of
                 Some v \<Rightarrow> v | None \<Rightarrow> NaN))"

definition left_pairs :: "string \<Rightarrow> frame \<Rightarrow> frame \<Rightarrow> (string \<Rightarrow> cell) list" where
  "left_pairs key left right =
     concat (map (\<lambda>l. case filter (\<lambda>r. r key = l key) (rows right) of
                         [] \<Rightarrow> [join_row key (cols left) (cols right) (Some l) None]
                       | ms \<Rightarrow> map (\<lambda>r. join_row key (cols left) (cols right) (Some l) (Some r)) ms)
                 (rows left))"

definition right_only :: "string \<Rightarrow> frame \<Rightarrow> frame \<Rightarrow> (string \<Rightarrow> cell) list" where
  "right_only key left right =
     map (\<lambda>r. join_row key (cols left) (cols right) None (Some r))
         (filter (\<lambda>r. \<forall>l\<in>set (rows left). l key \<noteq> r key) (rows right))"

datatype how = Left | Outer

definition merge :: "frame \<Rightarrow> frame \<Rightarrow> string \<Rightarrow> how \<Rightarrow> error + frame" where
  "merge left right key hw =
     (if key \<notin> set (cols left) \<or> key \<notin> set (cols right) then Inl (KeyError key)
      else Inr \<lparr>cols = merged_names key (cols left) (cols right),
                rows = left_pairs key left right @
                       (case hw of Left \<Rightarrow> [] | Outer \<Rightarrow> right_only key left right)\<rparr>)"

text \<open>
  \<open>sort_values_on(k)\<close> on a table: ascending, NaN last; rows with equal keys keep
  their order. \<open>df[k].duplicated(keep=False)\<close> has a true entry when a key occurs twice.
\<close>

definition sort_values_on :: "string \<Rightarrow> frame \<Rightarrow> frame" where
  "sort_values_on k df =
     df\<lparr>rows := sort_key (\<lambda>r. case r k of Num x \<Rightarrow> (0 :: nat, x) | _ \<Rightarrow> (1, 0)) (rows df)\<rparr>"

definition duplicated :: "string \<Rightarrow> frame \<Rightarrow> bool" where
  "duplicated k df = (\<not> distinct (map (\<lambda>r. r k) (rows df)))"

text \<open>
  \<open>pd.merge_asof(left, right, on=key, direction="nearest")\<close>, for key columns of the
  same dtype: the keys must be numbers, none of them NaN, and sorted on both sides. A
  left row gets the right row whose key is nearest: the last one not above the left key
  or the first one not below it, the lower one at equal distance.
\<close>

definition numeric_keys :: "frame \<Rightarrow> string \<Rightarrow> real list option" where
  "numeric_keys df k =
     (if list_all (\<lambda>r. case r k of Num x \<Rightarrow> True | _ \<Rightarrow> False) (rows df)
      then Some (map (\<lambda>r. case r k of Num x \<Rightarrow> x | _ \<Rightarrow> 0) (rows df)) else None)"

definition asof_nearest :: "real list \<Rightarrow> real \<Rightarrow> nat option" where
  "asof_nearest rs l =
     (let bs = filter (\<lambda>j. rs ! j \<le> l) [0..<length rs];
          fs = filter (\<lambda>j. l \<le> rs ! j) [0..<length rs]
      in if bs = [] then (if fs = [] then None else Some (hd fs))
         else if fs = [] then Some (last bs)
         else if l - rs ! last bs \<le> rs ! hd fs - l then Some (last bs) else Some (hd fs))"

definition merge_asof :: "frame \<Rightarrow> frame \<Rightarrow> string \<Rightarrow> error + frame" where
  "merge_asof left right key =
     (if key \<notin> set (cols left) \<or> key \<notin> set (cols right) then Inl (KeyError key)
      else (case numeric_keys left key of
              None \<Rightarrow> Inl (ValueError ''Merge keys contain null values on left side'')
            | Some ls \<Rightarrow>
                (case numeric_keys right key of
                   None \<Rightarrow> Inl (ValueError ''Merge keys contain null values on right side'')
                 | Some rs \<Rightarrow>
                     if \<not> sorted ls then Inl (ValueError ''left keys must be sorted'')
                     else if \<not> sorted rs then Inl (ValueError ''right keys must be sorted'')
                     else Inr \<lparr>cols = merged_names key (cols left) (cols right),
                               rows = map (\<lambda>l. join_row key (cols left) (cols right) (Some l)
                                             (case l key of
                                                Num x \<Rightarrow> map_option (\<lambda>j. rows right ! j) (asof_nearest rs x)
                                              | _ \<Rightarrow> None))
                                          (rows left)\<rparr>)))"

text \<open>\<open>pd.concat(fs, ignore_index=True)\<close>: the union of the columns, NaN where absent.\<close>

definition concat_frames :: "frame list \<Rightarrow> frame" where
  "concat_frames fs =
     \<lparr>cols = rev (remdups (rev (concat (map cols fs)))),
      rows = concat (map (\<lambda>f. map (\<lambda>r c. if c \<in> set (cols f) then r c else NaN) (rows f)) fs)\<rparr>"

text \<open>\<open>df[k].max()\<close> skips NaN; \<open>int\<close> truncates and raises on NaN.\<close>

definition col_max :: "frame \<Rightarrow> string \<Rightarrow> val" where
  "col_max df k =
     (case concat (map (\<lambda>r. case r k of Num x \<Rightarrow> [x] | _ \<Rightarrow> []) (rows df)) of
        [] \<Rightarrow> None | x # xs \<Rightarrow> Some (fold max xs x))"

definition py_int :: "val \<Rightarrow> error + int" where
  "py_int v =
     (case v of None \<Rightarrow> Inl (ValueError ''cannot convert float NaN to integer'')
      | Some x \<Rightarrow> Inr (if 0 \<le> x then \<lfloor>x\<rfloor> else \<lceil>x\<rceil>))"

text \<open>
  Lines 32 to 42: the frame-timestamp source, when there is one, is merged on the frame
  counter, one to one. The stages give the warnings, the table and the remaining dict.
\<close>

definition align_fp ::
  "frame \<Rightarrow> (string \<times> frame) list \<Rightarrow> error + string list \<times> frame \<times> (string \<times> frame) list" where
  "align_fp data ts_dict =
     (case map_of ts_dict ''ts_fp'' of
        None \<Rightarrow> Inr ([], data, ts_dict)
      | Some ts_fp \<Rightarrow>
          (case get_col ts_fp ''fm_fp'' of Inl e \<Rightarrow> Inl e | Inr c1 \<Rightarrow>
          (case py_int (col_max ts_fp ''fm_fp'') of Inl e \<Rightarrow> Inl e | Inr a \<Rightarrow>
          (case get_col data ''fm_fp'' of Inl e \<Rightarrow> Inl e | Inr c2 \<Rightarrow>
          (case py_int (col_max data ''fm_fp'') of Inl e \<Rightarrow> Inl e | Inr b \<Rightarrow>
             (let fm_diff = a - b;
                  w = (if fm_diff = 0 then []
                       else [''FP timestamp file has '' @ str_int \<bar>fm_diff\<bar> @
                             (if 0 < fm_diff then '' frames more'' else '' frames less'') @
                             '' than data file''])
              in if duplicated ''fm_fp'' data \<or> duplicated ''fm_fp'' ts_fp
                 then Inl (MergeError ''Merge keys are not unique'')
                 else (case merge data ts_fp ''fm_fp'' Left of
                         Inl e \<Rightarrow> Inl e
                       | Inr d \<Rightarrow> Inr (w, d, dict_pop ts_dict ''ts_fp''))))))))"

text \<open>
  Lines 44 to 62: the behaviour-timestamp source is merged on the nearest \<open>ts\<close> of the
  table, then onto the table by frame counter; without a \<open>ts\<close> column it is skipped
  with a warning.
\<close>

definition align_behav ::
  "frame \<Rightarrow> (string \<times> frame) list \<Rightarrow> error + string list \<times> frame \<times> (string \<times> frame) list" where
  "align_behav data ts_dict =
     (case map_of ts_dict ''ts_behav'' of
        None \<Rightarrow> Inr ([], data, ts_dict)
      | Some ts_behav \<Rightarrow>
          if ''ts'' \<in> set (cols data) then
            (case select_cols data [''fm_fp'', ''ts''] of Inl e \<Rightarrow> Inl e | Inr sub \<Rightarrow>
            (case merge_asof ts_behav sub ''ts'' of Inl e \<Rightarrow> Inl e | Inr m \<Rightarrow>
               (let tb = rename_cols [''ts'' \<mapsto> ''ts_behav''] m;
                    w = (if duplicated ''fm_fp'' tb
                         then [''Multiple Behavior frames mapped to the same FP frame''] else [])
                in (case merge data tb ''fm_fp'' Outer of
                      Inl e \<Rightarrow> Inl e
                    | Inr d \<Rightarrow> Inr (w, sort_values_on ''fm_fp'' d, dict_pop ts_dict ''ts_behav'')))))
          else Inr ([''No FP TS supplied, cannot align Behavior frames''], data,
                    dict_pop ts_dict ''ts_behav''))"

text \<open>Lines 65 to 96: the remaining sources, each aligned by the first key it carries.\<close>

definition align_source :: "frame \<Rightarrow> string \<Rightarrow> frame \<Rightarrow> error + string list \<times> frame list" where
  "align_source data dname dat =
     (if ''fm_fp'' \<in> set (cols dat) then
        (case select_cols dat [''fm_fp'', ''event'', ''event_type''] of
           Inl e \<Rightarrow> Inl e | Inr f \<Rightarrow> Inr ([], [f]))
      else if ''fm_behav'' \<in> set (cols dat) then
        (if ''fm_behav'' \<in> set (cols data) then
           (case select_cols data [''fm_fp'', ''fm_behav''] of Inl e \<Rightarrow> Inl e | Inr sub \<Rightarrow>
           (case merge dat sub ''fm_behav'' Left of Inl e \<Rightarrow> Inl e | Inr m \<Rightarrow>
           (case select_cols m [''fm_fp'', ''fm_behav'', ''event'', ''event_type''] of
              Inl e \<Rightarrow> Inl e | Inr f \<Rightarrow> Inr ([], [f]))))
         else Inr ([''No Behavior frames supplied, cannot align '' @ dname], []))
      else if ''ts_fp'' \<in> set (cols dat) then
        (if ''ts_fp'' \<in> set (cols data) then
           (case select_cols data [''fm_fp'', ''ts_fp''] of Inl e \<Rightarrow> Inl e | Inr sub \<Rightarrow>
           (case merge_asof dat sub ''ts_fp'' of Inl e \<Rightarrow> Inl e | Inr m \<Rightarrow>
           (case select_cols m [''fm_fp'', ''ts_fp'', ''event'', ''event_type''] of
              Inl e \<Rightarrow> Inl e | Inr f \<Rightarrow> Inr ([], [f]))))
         else Inr ([''No FP timestamps supplied, cannot align '' @ dname], []))
      else if ''ts'' \<in> set (cols dat) then
        (if ''ts'' \<in> set (cols data) then
           (case select_cols data [''fm_fp'', ''ts''] of Inl e \<Rightarrow> Inl e | Inr sub \<Rightarrow>
           (case merge_asof dat sub ''ts'' of Inl e \<Rightarrow> Inl e | Inr m \<Rightarrow>
           (case select_cols m [''fm_fp'', ''ts'', ''event'', ''event_type''] of
              Inl e \<Rightarrow> Inl e | Inr f \<Rightarrow> Inr ([], [f]))))
         else Inr ([''No computer timestamps supplied, cannot align '' @ dname], []))
      else Inr ([], []))"

fun align_sources :: "frame \<Rightarrow> (string \<times> frame) list \<Rightarrow> error + string list \<times> frame list" where
  "align_sources data [] = Inr ([], [])"
| "align_sources data ((dname, dat) # ts_dict) =
     (case align_source data dname dat of
        Inl e \<Rightarrow> Inl e
      | Inr (w, fs) \<Rightarrow>
          (case align_sources data ts_dict of
             Inl e \<Rightarrow> Inl e
           | Inr (ws, evts) \<Rightarrow> Inr (w @ ws, fs @ evts)))"

text \<open>Lines 97 to 108: the aligned events, merged onto the table by frame counter.\<close>

definition align_events :: "frame \<Rightarrow> (string \<times> frame) list \<Rightarrow> error + string list \<times> frame" where
  "align_events data ts_dict =
     (case align_sources data ts_dict of
        Inl e \<Rightarrow> Inl e
      | Inr (ws, evts) \<Rightarrow>
          if evts = [] then Inr (ws, data)
          else
            (let ev = sort_values_on ''fm_fp'' (concat_frames evts);
                 w = (if duplicated ''fm_fp'' ev
                      then [''Multiple events mapped to the same FP frame''] else [])
             in (case select_cols ev [''fm_fp'', ''event'', ''event_type''] of
                   Inl e \<Rightarrow> Inl e
                 | Inr sub \<Rightarrow>
                     (case merge data sub ''fm_fp'' Outer of
                        Inl e \<Rightarrow> Inl e
                      | Inr d \<Rightarrow> Inr (ws @ w, sort_values_on ''fm_fp'' d)))))"

text \<open>Lines 11 to 17: the columns renamed to the internal names.\<close>

definition internal_names :: "frame \<Rightarrow> frame" where
  "internal_names data =
     rename_cols [''SystemTimestamp'' \<mapsto> ''ts_fp'', ''FrameCounter'' \<mapsto> ''fm_fp'',
                  ''ComputerTimestamp'' \<mapsto> ''ts''] data"

text \<open>
  \<open>align_ts\<close>: the warnings emitted, the merged table and the remaining sources; an
  exception of any stage ends the call. A warning is its fixed first line, without the
  rows that some of them print after it.
\<close>

definition align_ts ::
  "(column \<Rightarrow> column) \<Rightarrow> (cell \<Rightarrow> string) \<Rightarrow> frame \<Rightarrow> (string \<times> column list) list
     \<Rightarrow> error + string list \<times> frame \<times> (string \<times> frame) list" where
  "align_ts to_numeric astype_str data0 ts_files =
     (let data = internal_names data0
      in (case load_sources to_numeric astype_str ts_files [] of
            Inl e \<Rightarrow> Inl e
          | Inr ts_dict \<Rightarrow>
              (case align_fp data ts_dict of
                 Inl e \<Rightarrow> Inl e
               | Inr (w1, data1, ts_dict1) \<Rightarrow>
                   (case align_behav data1 ts_dict1 of
                      Inl e \<Rightarrow> Inl e
                    | Inr (w2, data2, ts_dict2) \<Rightarrow>
                        (case align_events data2 ts_dict2 of
                           Inl e \<Rightarrow> Inl e
                         | Inr (w3, data3) \<Rightarrow> Inr (w1 @ w2 @ w3, data3, ts_dict2))))))"

text \<open>
  Examples: a recording of frames 10, 11, 12 at times 0, 1, 2, with and without the
  computer timestamp; a behaviour log with frame 0 at time 0.9; a keydown log; a
  digital-I/O log with its header row; a five-column table without rows.
\<close>

definition example_fp_row :: "real \<Rightarrow> real \<Rightarrow> real \<Rightarrow> string \<Rightarrow> cell" where
  "example_fp_row fm t g c =
     (if c = ''FrameCounter'' then Num fm else if c = ''ComputerTimestamp'' then Num t
      else if c = ''G'' then Num g else NaN)"

definition example_fp :: frame where
  "example_fp = \<lparr>cols = [''FrameCounter'', ''ComputerTimestamp'', ''G''],
     rows = [example_fp_row 10 0 5, example_fp_row 11 1 6, example_fp_row 12 2 7]\<rparr>"

definition example_behav :: "column list" where
  "example_behav = [(Integer_dtype, [Num 0]), (Float_dtype, [Num 0.9])]"

definition example_keydown :: "column list" where
  "example_keydown = [(Object_dtype, [Txt ''start'', Txt ''stop'']), (Float_dtype, [Num 1, Num 2.5])]"




section \<open>Properties of \<open>find_pks\<close>\<close>

lemma find_pks_groups_no_filter:
  "find_pks_groups find_peaks prominence freq_wd None rois snap keys data = Inr data"
  by (induction keys) simp_all

text \<open>
  C10. Called without a channel filter (\<open>sigs = None\<close>) on a table that has the
  \<open>signal\<close> column, \<open>find_pks\<close> selects no group: it adds no peak column and no rolling
  count column, and returns the table it was given.
\<close>

theorem find_pks_no_filter_unchanged:
  "''signal'' \<in> set (cols data) \<Longrightarrow>
   find_pks find_peaks data rois prominence freq_wd None = Inr data"
  by (simp add: find_pks_def find_pks_groups_no_filter)

theorem find_pks_no_filter_unchanged_witness:
  "''signal'' \<in> set (cols example_signals) \<and>
   find_pks (\<lambda>d p. [1]) example_signals [''G''] (1::real) (Some 2) None = Inr example_signals"
  using find_pks_no_filter_unchanged
          [of example_signals "\<lambda>d p. [1]" "[''G'']" "1::real" "Some 2"]
  by (simp add: example_signals_def)

text \<open>
  Whatever the arguments, the only columns \<open>find_pks\<close> adds to the returned table
  are peak columns: the rolling count is written to the group's own table.
\<close>

lemma loc_set_cols:
  "set (cols (loc_set df idx c vs)) = insert c (set (cols df))"
  by (auto simp: loc_set_def)

lemma find_pks_rois_cols:
  "find_pks_rois find_peaks prominence freq_wd idx rois (data, dat_sig) = Inr (data', dat_sig') \<Longrightarrow>
   set (cols data') \<subseteq> set (cols data) \<union> (\<lambda>roi. roi @ ''-pks'') ` set rois"
proof (induction rois arbitrary: data dat_sig)
  case Nil
  then show ?case by simp
next
  case (Cons roi rois)
  then show ?case
    by (fastforce simp: Let_def loc_set_cols split: sum.splits option.splits)
qed

lemma find_pks_groups_cols:
  "find_pks_groups find_peaks prominence freq_wd sigs rois snap keys data = Inr out \<Longrightarrow>
   set (cols out) \<subseteq> set (cols data) \<union> (\<lambda>roi. roi @ ''-pks'') ` set rois"
proof (induction keys arbitrary: data)
  case Nil
  then show ?case by auto
next
  case (Cons sig keys)
  show ?case
  proof (cases "case sigs of None \<Rightarrow> False | Some ss \<Rightarrow> sig \<in> set ss")
    case False
    with Cons show ?thesis by simp
  next
    case True
    with Cons.prems obtain data' dat_sig' where
      a: "find_pks_rois find_peaks prominence freq_wd (group_index snap sig) rois
            (data, take_rows snap (group_index snap sig)) = Inr (data', dat_sig')"
      and b: "find_pks_groups find_peaks prominence freq_wd sigs rois snap keys data' = Inr out"
      by (auto split: sum.splits)
    from find_pks_rois_cols [OF a] Cons.IH [OF b] show ?thesis by blast
  qed
qed

lemma find_pks_adds_peak_columns_only:
  "find_pks find_peaks data rois prominence freq_wd sigs = Inr out \<Longrightarrow>
   set (cols out) \<subseteq> set (cols data) \<union> (\<lambda>roi. roi @ ''-pks'') ` set rois"
  by (auto simp: find_pks_def split: if_splits dest!: find_pks_groups_cols)

text \<open>
  C8. With a rolling window width, the returned table should carry a rolling peak-count
  column per region and selected channel group. The code reads the peak column from the
  group's own table, which does not have it (the column was written to \<open>data\<close>), and
  would write the count to that same group table, which is dropped: on a table without
  peak columns the call raises KeyError for the first region of the first selected group.
\<close>

theorem find_pks_rolling_count_keyerror:
  "\<forall>find_peaks. find_pks find_peaks example_signals [''G''] (1::real) (Some 2) (Some [''470nm''])
     = Inl (KeyError ''G-pks'')"
  by (simp add: find_pks_def example_signals_def group_keys_def example_row_def get_col_def
      take_rows_def)

section \<open>Properties of \<open>pool_events\<close>\<close>












lemma norm_roi_fm_evt: "map fm_evt (norm_roi roi w) = map fm_evt w"
  by (simp add: norm_roi_def Let_def)

















section \<open>Properties of \<open>load_data\<close>\<close>

lemma set_signal_keys: "set (signal_keys data) = {k. Some k \<in> signal ` set data}"
  by (auto simp: signal_keys_def split: option.splits)

lemma distinct_signal_keys: "distinct (signal_keys data)"
  by (simp add: signal_keys_def)

lemma filter_concat_key:
  assumes "distinct ks" and "\<forall>k\<in>set ks. \<forall>r\<in>set (f k). g r = Some k" and "l \<in> set ks"
  shows "filter (\<lambda>r. g r = Some l) (concat (map f ks)) = f l"
  using assms
proof (induction ks)
  case Nil
  then show ?case by simp
next
  case (Cons k ks)
  show ?case
  proof (cases "k = l")
    case True
    with Cons.prems have "l \<notin> set ks" by simp
    with Cons.prems(2) have "\<forall>k'\<in>set ks. \<forall>r\<in>set (f k'). g r \<noteq> Some l" by auto
    then have "filter (\<lambda>r. g r = Some l) (concat (map f ks)) = []"
      by (auto simp: filter_empty_conv)
    moreover from Cons.prems(2) True have "filter (\<lambda>r. g r = Some l) (f k) = f l"
      by (auto simp: filter_id_conv)
    ultimately show ?thesis by simp
  next
    case False
    with Cons.prems(2) have "filter (\<lambda>r. g r = Some l) (f k) = []"
      by (auto simp: filter_empty_conv)
    moreover from False Cons.prems have "filter (\<lambda>r. g r = Some l) (concat (map f ks)) = f l"
      by (intro Cons.IH) auto
    ultimately show ?thesis by simp
  qed
qed

lemma take_sorted_earliest:
  assumes "mset ys = mset xs" and "sorted (map f ys)"
  shows "mset (take n ys) \<subseteq># mset xs \<and>
         (\<forall>k\<in>set (take n ys). \<forall>g\<in>#(mset xs - mset (take n ys)). f k \<le> f g)"
proof -
  have split: "ys = take n ys @ drop n ys" by simp
  then have "mset xs = mset (take n ys) + mset (drop n ys)"
    using assms(1) by (metis mset_append)
  then have sub: "mset (take n ys) \<subseteq># mset xs" and rest: "mset xs - mset (take n ys) = mset (drop n ys)"
    by simp_all
  from assms(2) have "sorted (map f (take n ys) @ map f (drop n ys))"
    by (metis split map_append)
  then have "\<forall>k\<in>set (take n ys). \<forall>g\<in>set (drop n ys). f k \<le> f g"
    by (auto simp: sorted_append)
  with sub rest show ?thesis by simp
qed


lemma rename_columns_fields [simp]:
  "FrameCounter (rename_columns roi_dict r) = FrameCounter r"
  "SystemTimestamp (rename_columns roi_dict r) = SystemTimestamp r"
  "LedState (rename_columns roi_dict r) = LedState r"
  "signal (rename_columns roi_dict r) = signal r"
  by (simp_all add: rename_columns_def)

lemma label_rows_fields:
  "r \<in> set (label_rows data_file discard_nfm led_dict) \<Longrightarrow>
   discard_nfm < FrameCounter r \<and> signal r = led_dict (LedState r)"
  by (auto simp: label_rows_def add_signal_def)

lemma sort_values_set:
  assumes "\<forall>xs. mset (sort_values xs) = mset xs \<and> sorted (map f (sort_values xs))"
  shows "set (sort_values xs) = set xs"
  using assms by (metis set_mset_mset)

lemma sort_values_length:
  assumes "\<forall>xs. mset (sort_values xs) = mset xs \<and> sorted (map f (sort_values xs))"
  shows "length (sort_values xs) = length xs"
  using assms by (metis size_mset)

lemma load_data_eq:
  "load_data sort_values data_file discard_nfm led_dict roi_dict =
   map (rename_columns roi_dict)
     (concat (map (\<lambda>k. cut_df sort_values (signal_group (label_rows data_file discard_nfm led_dict) k)
                         (min_group_size (label_rows data_file discard_nfm led_dict)))
                  (signal_keys (label_rows data_file discard_nfm led_dict))))"
  by (simp add: load_data_def Let_def)

lemma min_group_size_le:
  "Some l \<in> signal ` set data \<Longrightarrow> min_group_size data \<le> length (signal_group data l)"
proof -
  assume "Some l \<in> signal ` set data"
  then have "l \<in> set (signal_keys data)" by (simp add: set_signal_keys)
  then have "length (signal_group data l) \<in>
             set (map (\<lambda>k. length (signal_group data k)) (signal_keys data))"
    by simp
  then show ?thesis
    unfolding min_group_size_def by (intro Min_le) simp_all
qed

text \<open>
  C4. For any sort that orders by device timestamp: every returned row has a frame
  counter above the discard count and a light-source code with a label; for every label
  of the table before trimming, the returned rows of that label are as many as the
  smallest group before trimming, and they are rows of that label's group with device
  timestamps no later than those of the group's rows left out.
\<close>

theorem load_data_equal_groups:
  assumes srt: "\<forall>xs. mset (sort_values xs) = mset xs \<and>
                     sorted (map SystemTimestamp (sort_values xs))"
  shows "(\<forall>r\<in>set (load_data sort_values data_file discard_nfm led_dict roi_dict).
            discard_nfm < FrameCounter r \<and> signal r \<noteq> None \<and> signal r = led_dict (LedState r)) \<and>
         (\<forall>l. Some l \<in> signal ` set (label_rows data_file discard_nfm led_dict) \<longrightarrow>
            (\<exists>kept. signal_group (load_data sort_values data_file discard_nfm led_dict roi_dict) l
                       = map (rename_columns roi_dict) kept \<and>
                    length kept = min_group_size (label_rows data_file discard_nfm led_dict) \<and>
                    mset kept \<subseteq># mset (signal_group (label_rows data_file discard_nfm led_dict) l) \<and>
                    (\<forall>k\<in>set kept.
                       \<forall>g\<in>#(mset (signal_group (label_rows data_file discard_nfm led_dict) l) - mset kept).
                         SystemTimestamp k \<le> SystemTimestamp g)))"
proof -
  define pre where "pre = label_rows data_file discard_nfm led_dict"
  define n where "n = min_group_size pre"
  define f where "f = (\<lambda>k. cut_df sort_values (signal_group pre k) n)"
  have out: "load_data sort_values data_file discard_nfm led_dict roi_dict =
             map (rename_columns roi_dict) (concat (map f (signal_keys pre)))"
    by (simp add: load_data_eq pre_def n_def f_def)
  have sub: "set (f k) \<subseteq> set (signal_group pre k)" for k
    using sort_values_set [OF srt] set_take_subset [of n "sort_values (signal_group pre k)"]
    by (simp add: f_def cut_df_def)
  have sig: "\<forall>k\<in>set (signal_keys pre). \<forall>r\<in>set (f k). signal r = Some k"
    using sub by (auto simp: signal_group_def)
  have first: "\<forall>r\<in>set (load_data sort_values data_file discard_nfm led_dict roi_dict).
            discard_nfm < FrameCounter r \<and> signal r \<noteq> None \<and> signal r = led_dict (LedState r)"
  proof
    fix r
    assume "r \<in> set (load_data sort_values data_file discard_nfm led_dict roi_dict)"
    with out obtain k r0 where k: "k \<in> set (signal_keys pre)" and r0: "r0 \<in> set (f k)"
      and r: "r = rename_columns roi_dict r0"
      by auto
    from sub r0 have in_pre: "r0 \<in> set pre" and s0: "signal r0 = Some k"
      by (auto simp: signal_group_def)
    from in_pre have "discard_nfm < FrameCounter r0" and "signal r0 = led_dict (LedState r0)"
      using label_rows_fields [of r0 data_file discard_nfm led_dict] by (simp_all add: pre_def)
    with s0 r
    show "discard_nfm < FrameCounter r \<and> signal r \<noteq> None \<and> signal r = led_dict (LedState r)"
      by simp
  qed
  have second: "\<exists>kept. signal_group (load_data sort_values data_file discard_nfm led_dict roi_dict) l
                       = map (rename_columns roi_dict) kept \<and>
                    length kept = n \<and>
                    mset kept \<subseteq># mset (signal_group pre l) \<and>
                    (\<forall>k\<in>set kept. \<forall>g\<in>#(mset (signal_group pre l) - mset kept).
                         SystemTimestamp k \<le> SystemTimestamp g)"
    if l: "Some l \<in> signal ` set pre" for l
  proof -
    from l have lk: "l \<in> set (signal_keys pre)" by (simp add: set_signal_keys)
    have "signal_group (load_data sort_values data_file discard_nfm led_dict roi_dict) l =
          map (rename_columns roi_dict)
            (filter (\<lambda>r. signal r = Some l) (concat (map f (signal_keys pre))))"
      by (simp add: out signal_group_def filter_map comp_def)
    also have "filter (\<lambda>r. signal r = Some l) (concat (map f (signal_keys pre))) = f l"
      using distinct_signal_keys sig lk by (rule filter_concat_key)
    finally have a: "signal_group (load_data sort_values data_file discard_nfm led_dict roi_dict) l =
          map (rename_columns roi_dict) (f l)" .
    from min_group_size_le [OF l] have "n \<le> length (sort_values (signal_group pre l))"
      by (simp add: n_def sort_values_length [OF srt])
    then have b: "length (f l) = n" by (simp add: f_def cut_df_def)
    from srt have "mset (sort_values (signal_group pre l)) = mset (signal_group pre l)"
      and "sorted (map SystemTimestamp (sort_values (signal_group pre l)))"
      by simp_all
    from take_sorted_earliest [OF this, of n]
    have c: "mset (f l) \<subseteq># mset (signal_group pre l) \<and>
          (\<forall>k\<in>set (f l). \<forall>g\<in>#(mset (signal_group pre l) - mset (f l)).
              SystemTimestamp k \<le> SystemTimestamp g)"
      by (simp add: f_def cut_df_def)
    from a b c show ?thesis by blast
  qed
  from first second show ?thesis
    unfolding pre_def n_def by blast
qed

lemma ex_keys: "signal_keys (label_rows example_samples 1 default_led_dict) = [''415nm'', ''470nm'']"
  by (simp add: signal_keys_def label_rows_def example_samples_def default_led_dict_def add_signal_def)

lemma ex_min: "min_group_size (label_rows example_samples 1 default_led_dict) = 2"
  unfolding min_group_size_def ex_keys
  by (simp add: signal_group_def label_rows_def example_samples_def default_led_dict_def add_signal_def)

lemma ex_labels:
  "Some ''415nm'' \<in> signal ` set (label_rows example_samples 1 default_led_dict)"
  "Some ''470nm'' \<in> signal ` set (label_rows example_samples 1 default_led_dict)"
  by (simp_all add: label_rows_def example_samples_def default_led_dict_def add_signal_def)

text \<open>
  The example with a stable sort: groups of three and two rows, two rows kept of each.
\<close>

theorem load_data_equal_groups_witness:
  "(\<forall>xs :: labelled list. mset (sort_key SystemTimestamp xs) = mset xs \<and>
         sorted (map SystemTimestamp (sort_key SystemTimestamp xs))) \<and>
   list_all (\<lambda>r. 1 < FrameCounter r \<and> signal r \<noteq> None \<and> signal r = default_led_dict (LedState r))
     (load_data (sort_key SystemTimestamp) example_samples 1 default_led_dict example_roi_dict) \<and>
   length (signal_group
     (load_data (sort_key SystemTimestamp) example_samples 1 default_led_dict example_roi_dict) ''415nm'') = 2 \<and>
   length (signal_group
     (load_data (sort_key SystemTimestamp) example_samples 1 default_led_dict example_roi_dict) ''470nm'') = 2"
proof -
  have srt: "\<forall>xs :: labelled list. mset (sort_key SystemTimestamp xs) = mset xs \<and>
         sorted (map SystemTimestamp (sort_key SystemTimestamp xs))"
    by simp
  note inst = load_data_equal_groups [OF srt, of example_samples 1 default_led_dict example_roi_dict]
  from inst ex_labels(1) obtain kept1 where
    "signal_group (load_data (sort_key SystemTimestamp) example_samples 1 default_led_dict
        example_roi_dict) ''415nm'' = map (rename_columns example_roi_dict) kept1"
    "length kept1 = min_group_size (label_rows example_samples 1 default_led_dict)"
    by blast
  then have a: "length (signal_group (load_data (sort_key SystemTimestamp) example_samples 1
        default_led_dict example_roi_dict) ''415nm'') = 2"
    by (simp add: ex_min)
  from inst ex_labels(2) obtain kept2 where
    "signal_group (load_data (sort_key SystemTimestamp) example_samples 1 default_led_dict
        example_roi_dict) ''470nm'' = map (rename_columns example_roi_dict) kept2"
    "length kept2 = min_group_size (label_rows example_samples 1 default_led_dict)"
    by blast
  then have b: "length (signal_group (load_data (sort_key SystemTimestamp) example_samples 1
        default_led_dict example_roi_dict) ''470nm'') = 2"
    by (simp add: ex_min)
  from inst have c: "\<forall>r\<in>set (load_data (sort_key SystemTimestamp) example_samples 1 default_led_dict
        example_roi_dict).
      1 < FrameCounter r \<and> signal r \<noteq> None \<and> signal r = default_led_dict (LedState r)"
    by blast
  from srt a b c show ?thesis by (simp only: list_all_iff) blast
qed

section \<open>Properties of \<open>fit_exp2\<close>\<close>

lemma last_samples: "drop (length a - n) a = rev (take n (rev a))"
  by (simp add: take_rev)

text \<open>
  C3. \<open>fit_exp2\<close> starts the fit from \<open>(r, -10, r, 0.1, d_min - r)\<close>; when the fit
  fails it emits one warning and returns the curve at these initial parameters, when it
  succeeds it returns the curve at the fitted parameters; it always returns.
\<close>

theorem fit_exp2_fallback:
  "fit_exp2 curve_fit a x =
     (case curve_fit exp2 x a (spec_initial_guess a) of
        None \<Rightarrow> ([''Biexponential fit failed''], map (spec_biexp (spec_initial_guess a)) x)
      | Some popt \<Rightarrow> ([], map (spec_biexp popt) x))"
  by (auto simp: fit_exp2_def spec_initial_guess_def Let_def last_samples spec_biexp_def exp2_def
      split: option.splits prod.splits)

section \<open>Properties of \<open>NPMProcess.load_data\<close>\<close>




section \<open>Properties of \<open>load_ts\<close>\<close>





section \<open>Properties of \<open>align_ts\<close>\<close>

lemma dict_set_keys: "fst ` set (dict_set d k v) = insert k (fst ` set d)"
  by (auto simp: dict_set_def image_iff split: if_splits) force+

lemma load_sources_second_behav:
  assumes "''ts_behav'' \<in> fst ` set ts_dict" and "(dname, src) \<in> set ts_files"
    and "load_ts to_numeric astype_str src = Inr (f, ''ts_behav'')"
  shows "\<exists>e. load_sources to_numeric astype_str ts_files ts_dict = Inl e"
  using assms
proof (induction ts_files arbitrary: ts_dict)
  case Nil
  then show ?case by simp
next
  case (Cons p ts_files)
  obtain n s where p: "p = (n, s)" by (cases p)
  show ?case
  proof (cases "load_ts to_numeric astype_str s")
    case (Inl e)
    with p show ?thesis by simp
  next
    case (Inr res)
    obtain g t where res: "res = (g, t)" by (cases res)
    show ?thesis
    proof (cases "p = (dname, src)")
      case True
      with p Inr res Cons.prems show ?thesis by simp
    next
      case False
      with Cons.prems(2) have mem: "(dname, src) \<in> set ts_files" by simp
      have keep: "''ts_behav'' \<in> fst ` set (dict_set ts_dict k g)" for k
        using Cons.prems(1) by (simp add: dict_set_keys)
      from Cons.IH [OF keep mem Cons.prems(3)] p Inr res show ?thesis
        by (auto simp: )
    qed
  qed
qed

lemma two_behav_sources_error:
  assumes "ts_files = xs @ (n1, s1) # ys" and "(n2, s2) \<in> set ys"
    and "load_ts to_numeric astype_str s1 = Inr (f1, ''ts_behav'')"
    and "load_ts to_numeric astype_str s2 = Inr (f2, ''ts_behav'')"
  shows "\<exists>e. load_sources to_numeric astype_str ts_files ts_dict = Inl e"
  using assms(1)
proof (induction xs arbitrary: ts_files ts_dict)
  case Nil
  show ?case
  proof (cases "''ts_behav'' \<in> fst ` set ts_dict")
    case True
    with Nil assms(3) show ?thesis by simp
  next
    case False
    have "''ts_behav'' \<in> fst ` set (dict_set ts_dict ''ts_behav'' f1)"
      by (simp add: dict_set_keys)
    from load_sources_second_behav [OF this assms(2,4)] Nil assms(3) False show ?thesis
      by simp
  qed
next
  case (Cons p xs)
  obtain n s where p: "p = (n, s)" by (cases p)
  from Cons.IH [of "xs @ (n1, s1) # ys"] have ih: "\<exists>e. load_sources to_numeric astype_str
      (xs @ (n1, s1) # ys) d = Inl e" for d
    by simp
  show ?case
    using Cons.prems p ih by (auto split: sum.splits)
qed

text \<open>
  C2. Two behaviour-timestamp sources always end in an error (lemma
  \<open>two_behav_sources_error\<close>), but the check also fires with a single one: a keydown
  log stored under the name \<open>ts_behav\<close> occupies the key of the behaviour-timestamp
  source, and the one behaviour log that follows raises the error of a duplicate.
\<close>

theorem align_ts_reserved_name_collision:
  "(\<exists>f. load_ts id (\<lambda>c. []) example_keydown = Inr (f, ''ts_keydown'')) \<and>
   (\<exists>f. load_ts id (\<lambda>c. []) example_behav = Inr (f, ''ts_behav'')) \<and>
   align_ts id (\<lambda>c. []) example_fp [(''ts_behav'', example_keydown), (''b.csv'', example_behav)]
     = Inl (ValueError ''Multiple ts_behav supplied but only one expected.'')"
  by (simp add: align_ts_def load_ts_def example_keydown_def example_behav_def df_to_numeric_def
      nrows_def Let_def is_object_dtype_def is_float_dtype_def is_integer_dtype_def dict_set_def)
























end
